theory Spec2Isabelle
  imports Complex_Main "HOL-Library.Char_ord" "HOL-Library.List_Lexorder" "HOL-Library.Sublist"
    "HOL-Library.Multiset"
begin

section \<open>Errors, driver calls and page objects\<close>

text \<open>
  The page objects of the repository are thin wrappers over a browser driver. Every
  driver call can raise, and every call may change the browser; a call is therefore a
  function from the browser state \<open>'p\<close> to a result (an error or a value) and the next
  browser state. Log statements have no effect on results and are left out.

  Strings are lists of 8-bit characters, each read as one code point in
  U+0000..U+00FF; code points beyond that range are outside the model.
\<close>

datatype error =
    PlaywrightError string
  | ValueError string
  | IndexError string
  | AssertionError string

type_synonym ('p, 'a) act = "'p \<Rightarrow> (error + 'a) \<times> 'p"

definition ret :: "'a \<Rightarrow> ('p, 'a) act" where
  "ret x = (\<lambda>p. (Inr x, p))"

definition throw :: "error \<Rightarrow> ('p, 'a) act" where
  "throw e = (\<lambda>p. (Inl e, p))"

definition bind_act :: "('p, 'a) act \<Rightarrow> ('a \<Rightarrow> ('p, 'b) act) \<Rightarrow> ('p, 'b) act" where
  "bind_act m f = (\<lambda>p. case m p of (Inl e, p') \<Rightarrow> (Inl e, p') | (Inr x, p') \<Rightarrow> f x p')"

text \<open>
  The driver: one field for each method of the browser-automation library that the
  modelled code calls. A locator is named by its selector; an element locator returned
  by \<open>all()\<close> is named by the selector and its position. \<open>locator_all\<close> yields the
  number of element locators in the list that \<open>all()\<close> returns.
\<close>

record 'p driver =
  page_goto :: "string \<Rightarrow> ('p, unit) act"
  page_wait_for_load_state :: "string \<Rightarrow> int \<Rightarrow> ('p, unit) act"
  locator_click :: "string \<Rightarrow> ('p, unit) act"
  locator_select_option :: "string \<Rightarrow> string \<Rightarrow> ('p, unit) act"
  locator_text_content :: "string \<Rightarrow> ('p, string option) act"
  locator_get_attribute :: "string \<Rightarrow> string \<Rightarrow> ('p, string option) act"
  locator_input_value :: "string \<Rightarrow> ('p, string) act"
  locator_is_visible :: "string \<Rightarrow> ('p, bool) act"
  locator_is_enabled :: "string \<Rightarrow> ('p, bool) act"
  locator_is_checked :: "string \<Rightarrow> ('p, bool) act"
  locator_count :: "string \<Rightarrow> ('p, nat) act"
  locator_all :: "string \<Rightarrow> ('p, nat) act"
  nth_click :: "string \<Rightarrow> nat \<Rightarrow> ('p, unit) act"
  nth_text_content :: "string \<Rightarrow> nat \<Rightarrow> ('p, string option) act"
  expect_to_be_hidden :: "string \<Rightarrow> ('p, unit) act"
  expect_to_have_text :: "string \<Rightarrow> string \<Rightarrow> ('p, unit) act"

text \<open>\<open>BasePage.__init__\<close>: the page, the base URL and the timeout of the settings.\<close>

record 'p base_page =
  page :: "'p driver"
  base_url :: string
  timeout :: int

subsection \<open>String operations of the host language\<close>

text \<open>
  \<open>str.lower\<close> on U+0000..U+00FF: the letters A--Z and the capital letters
  U+00C0..U+00DE (without the multiplication sign U+00D7) move up by 32.
\<close>

definition char_lower :: "char \<Rightarrow> char" where
  "char_lower c =
     (let n = (of_char c :: nat)
      in if (65 \<le> n \<and> n \<le> 90) \<or> (192 \<le> n \<and> n \<le> 222 \<and> n \<noteq> 215)
         then char_of (n + 32) else c)"

definition str_lower :: "string \<Rightarrow> string" where
  "str_lower s = map char_lower s"

text \<open>\<open>str.replace(old, new)\<close> for a pattern \<open>old\<close> of one character.\<close>

definition str_replace :: "char \<Rightarrow> string \<Rightarrow> string \<Rightarrow> string" where
  "str_replace old new s = concat (map (\<lambda>c. if c = old then new else [c]) s)"

subsection \<open>\<open>BasePage\<close>: interaction\<close>

definition click :: "'p base_page \<Rightarrow> string \<Rightarrow> ('p, unit) act" where
  "click self selector = locator_click (page self) selector"

subsection \<open>Item controls by name\<close>

text \<open>
  \<open>InventoryPage.add_product_to_cart_by_name\<close>,
  \<open>InventoryPage.remove_product_from_cart_by_name\<close> and
  \<open>CartPage.remove_item_by_name\<close>; each computes the identifier inline.
\<close>

definition add_product_to_cart_by_name :: "'p base_page \<Rightarrow> string \<Rightarrow> ('p, 'p base_page) act" where
  "add_product_to_cart_by_name self product_name =
     (let data_test_name =
            str_replace (CHR '')'') [] (str_replace (CHR ''('') []
              (str_replace (CHR '' '') ''-'' (str_lower product_name)));
          selector = ''[data-test='add-to-cart-'' @ data_test_name @ ''']''
      in bind_act (click self selector) (\<lambda>_. ret self))"

definition remove_product_from_cart_by_name :: "'p base_page \<Rightarrow> string \<Rightarrow> ('p, 'p base_page) act" where
  "remove_product_from_cart_by_name self product_name =
     (let data_test_name =
            str_replace (CHR '')'') [] (str_replace (CHR ''('') []
              (str_replace (CHR '' '') ''-'' (str_lower product_name)));
          selector = ''[data-test='remove-'' @ data_test_name @ ''']''
      in bind_act (click self selector) (\<lambda>_. ret self))"

definition remove_item_by_name :: "'p base_page \<Rightarrow> string \<Rightarrow> ('p, 'p base_page) act" where
  "remove_item_by_name self item_name =
     (let data_test_name =
            str_replace (CHR '')'') [] (str_replace (CHR ''('') []
              (str_replace (CHR '' '') ''-'' (str_lower item_name)));
          selector = ''[data-test='remove-'' @ data_test_name @ ''']''
      in bind_act (click self selector) (\<lambda>_. ret self))"

text \<open>
  The derivation in the specification's words: lower-case the name, replace every
  space with a hyphen, strip all parentheses.
\<close>

definition derive_spec :: "string \<Rightarrow> string" where
  "derive_spec s =
     filter (\<lambda>c. c \<noteq> CHR ''('' \<and> c \<noteq> CHR '')'')
       (map (\<lambda>c. if c = CHR '' '' then CHR ''-'' else c) (str_lower s))"


subsection \<open>\<open>helpers.extract_price\<close>\<close>

text \<open>
  The arithmetic of binary floating point is not modelled. The type \<open>'f\<close> stands for
  the floats, and the operations on them that the code uses are taken as they are:
  \<open>float_of_rat\<close> is the rounding of an exact decimal value to the nearest float,
  \<open>float_add\<close> is \<open>+\<close>, \<open>float_round2\<close> is \<open>round(x, 2)\<close> and \<open>float_repr\<close> is the
  rendering of a float inside an f-string. The floats that arise here come from
  unsigned decimal numerals, so they are never NaN or a negative zero, and \<open>==\<close> on
  them is equality.
\<close>

record 'f float_ops =
  float_of_rat :: "rat \<Rightarrow> 'f"
  float_add :: "'f \<Rightarrow> 'f \<Rightarrow> 'f"
  float_round2 :: "'f \<Rightarrow> 'f"
  float_repr :: "'f \<Rightarrow> string"

definition is_digit :: "char \<Rightarrow> bool" where
  "is_digit c = (48 \<le> (of_char c :: nat) \<and> (of_char c :: nat) \<le> 57)"

definition digit_val :: "char \<Rightarrow> nat" where
  "digit_val c = of_char c - 48"

definition nat_of_digits :: "string \<Rightarrow> nat" where
  "nat_of_digits ds = foldl (\<lambda>a c. 10 * a + digit_val c) 0 ds"

text \<open>The character class \<open>[\d.]\<close>.\<close>

definition is_price_char :: "char \<Rightarrow> bool" where
  "is_price_char c = (is_digit c \<or> c = CHR ''.'')"

text \<open>
  \<open>re.search(r"[\d.]+", s)\<close>: the leftmost match, greedy; the result is the matched
  text (\<open>match.group()\<close>), or \<open>None\<close>.
\<close>

definition re_search_price :: "string \<Rightarrow> string option" where
  "re_search_price s =
     (case dropWhile (\<lambda>c. \<not> is_price_char c) s of
        [] \<Rightarrow> None
      | c # cs \<Rightarrow> Some (takeWhile is_price_char (c # cs)))"

text \<open>
  \<open>float(s)\<close> for a string \<open>s\<close> of digits and dots, the only strings the search above
  can return: a numeral is digits, digits with one dot, or one dot with digits on at
  least one side. Its value is the exact decimal value, rounded to a float.
\<close>

definition py_float :: "'f float_ops \<Rightarrow> string \<Rightarrow> error + 'f" where
  "py_float fl s =
     (let ip = takeWhile (\<lambda>c. c \<noteq> CHR ''.'') s;
          fp = (case dropWhile (\<lambda>c. c \<noteq> CHR ''.'') s of [] \<Rightarrow> [] | _ # r \<Rightarrow> r)
      in if CHR ''.'' \<in> set fp \<or> (ip = [] \<and> fp = [])
         then Inl (ValueError (''could not convert string to float: ''
                     @ [CHR 0x27] @ s @ [CHR 0x27]))
         else Inr (float_of_rat fl
                     (of_nat (nat_of_digits (ip @ fp)) / 10 ^ length fp)))"

definition extract_price :: "'f float_ops \<Rightarrow> string \<Rightarrow> error + 'f" where
  "extract_price fl price_string =
     (case re_search_price price_string of
        Some m \<Rightarrow> py_float fl m
      | None \<Rightarrow> Inl (ValueError (''Could not extract price from: '' @ price_string)))"

subsection \<open>\<open>int(s)\<close>, \<open>str(n)\<close> and \<open>repr\<close>\<close>

definition is_space :: "char \<Rightarrow> bool" where
  "is_space c =
     (let n = (of_char c :: nat)
      in (9 \<le> n \<and> n \<le> 13) \<or> (28 \<le> n \<and> n \<le> 32) \<or> n = 133 \<or> n = 160)"

definition str_strip :: "string \<Rightarrow> string" where
  "str_strip s = rev (dropWhile is_space (rev (dropWhile is_space s)))"

text \<open>Digits, with single underscores allowed between two digits.\<close>

fun digits_ok :: "string \<Rightarrow> bool" where
  "digits_ok [] = False"
| "digits_ok [c] = is_digit c"
| "digits_ok (c # d # cs) =
     (is_digit c \<and> (if d = CHR ''_'' then digits_ok cs else digits_ok (d # cs)))"

definition is_printable :: "char \<Rightarrow> bool" where
  "is_printable c =
     (let n = (of_char c :: nat) in (32 \<le> n \<and> n \<le> 126) \<or> (161 \<le> n \<and> n \<noteq> 173))"

definition hex_digit :: "nat \<Rightarrow> char" where
  "hex_digit n = (if n < 10 then char_of (48 + n) else char_of (87 + n))"

definition repr_char :: "char \<Rightarrow> char \<Rightarrow> string" where
  "repr_char q c =
     (if c = q \<or> c = CHR 0x5C then [CHR 0x5C, c]
      else if c = CHR 0x09 then [CHR 0x5C, CHR ''t'']
      else if c = CHR 0x0A then [CHR 0x5C, CHR ''n'']
      else if c = CHR 0x0D then [CHR 0x5C, CHR ''r'']
      else if is_printable c then [c]
      else [CHR 0x5C, CHR ''x'', hex_digit (of_char c div 16), hex_digit (of_char c mod 16)])"

definition str_repr :: "string \<Rightarrow> string" where
  "str_repr s =
     (let q = (if CHR 0x27 \<in> set s \<and> CHR 0x22 \<notin> set s then CHR 0x22 else CHR 0x27)
      in q # concat (map (repr_char q) s) @ [q])"

fun join :: "string \<Rightarrow> string list \<Rightarrow> string" where
  "join sep [] = []"
| "join sep [x] = x"
| "join sep (x # y # ys) = x @ sep @ join sep (y # ys)"

definition list_repr :: "('a \<Rightarrow> string) \<Rightarrow> 'a list \<Rightarrow> string" where
  "list_repr r xs = ''['' @ join '', '' (map r xs) @ '']''"

text \<open>
  \<open>int(s)\<close> in base 10: surrounding whitespace is ignored, one sign is allowed. The
  interpreter's limit on the number of digits is not modelled.
\<close>

definition py_int :: "string \<Rightarrow> error + int" where
  "py_int s =
     (let t = str_strip s;
          neg = (t \<noteq> [] \<and> hd t = CHR ''-'');
          body = (if t \<noteq> [] \<and> (hd t = CHR ''-'' \<or> hd t = CHR ''+'') then tl t else t)
      in if digits_ok body
         then Inr ((if neg then - 1 else 1)
                     * int (nat_of_digits (filter (\<lambda>c. c \<noteq> CHR ''_'') body)))
         else Inl (ValueError (''invalid literal for int() with base 10: '' @ str_repr s)))"

fun str_nat :: "nat \<Rightarrow> string" where
  "str_nat n =
     (if n < 10 then [char_of (48 + n)] else str_nat (n div 10) @ [char_of (48 + n mod 10)])"

declare str_nat.simps [simp del]

definition str_int :: "int \<Rightarrow> string" where
  "str_int i = (if i < 0 then CHR ''-'' # str_nat (nat (- i)) else str_nat (nat i))"

text \<open>\<open>sorted(xs)\<close> and \<open>sorted(xs, reverse=True)\<close>; both are stable.\<close>

definition py_sorted :: "'a::linorder list \<Rightarrow> 'a list" where
  "py_sorted xs = sort xs"

definition py_sorted_reverse :: "'a::linorder list \<Rightarrow> 'a list" where
  "py_sorted_reverse xs = rev (sort (rev xs))"


subsection \<open>\<open>config.settings\<close>\<close>

text \<open>
  The environment maps variable names to values. \<open>os.getenv(key, default)\<close> yields
  the default when the variable is unset.
\<close>

definition getenv :: "(string \<rightharpoonup> string) \<Rightarrow> string \<Rightarrow> string \<Rightarrow> string" where
  "getenv env key dflt = (case env key of None \<Rightarrow> dflt | Some v \<Rightarrow> v)"

datatype setting = SStr string | SBool bool | SInt int

text \<open>
  The body of \<open>class Settings\<close>: the attributes in the order of the class body. The
  two \<open>int(...)\<close> conversions are the only statements that can raise.
\<close>

definition Settings :: "(string \<rightharpoonup> string) \<Rightarrow> error + (string \<times> setting) list" where
  "Settings env =
     (case py_int (getenv env ''SLOW_MO'' ''100'') of
        Inl e \<Rightarrow> Inl e
      | Inr slow_mo \<Rightarrow>
     (case py_int (getenv env ''TIMEOUT'' ''30000'') of
        Inl e \<Rightarrow> Inl e
      | Inr tmo \<Rightarrow>
        Inr [(''BASE_URL'', SStr (getenv env ''BASE_URL'' ''https://www.saucedemo.com'')),
             (''STANDARD_USER'', SStr (getenv env ''STANDARD_USER'' ''standard_user'')),
             (''LOCKED_OUT_USER'', SStr (getenv env ''LOCKED_OUT_USER'' ''locked_out_user'')),
             (''PROBLEM_USER'', SStr (getenv env ''PROBLEM_USER'' ''problem_user'')),
             (''PERFORMANCE_USER'',
                SStr (getenv env ''PERFORMANCE_USER'' ''performance_glitch_user'')),
             (''ERROR_USER'', SStr (getenv env ''ERROR_USER'' ''error_user'')),
             (''VISUAL_USER'', SStr (getenv env ''VISUAL_USER'' ''visual_user'')),
             (''PASSWORD'', SStr (getenv env ''PASSWORD'' ''secret_sauce'')),
             (''HEADLESS'', SBool (str_lower (getenv env ''HEADLESS'' ''false'') = ''true'')),
             (''SLOW_MO'', SInt slow_mo),
             (''TIMEOUT'', SInt tmo),
             (''SCREENSHOT_ON_FAILURE'',
                SBool (str_lower (getenv env ''SCREENSHOT_ON_FAILURE'' ''true'') = ''true'')),
             (''VIDEO_ON_FAILURE'',
                SBool (str_lower (getenv env ''VIDEO_ON_FAILURE'' ''true'') = ''true''))]))"

text \<open>The user identifiers of a settings object: the attributes named \<open>..._USER\<close>.\<close>

definition user_identifiers :: "(string \<times> setting) list \<Rightarrow> (string \<times> setting) list" where
  "user_identifiers st = filter (\<lambda>(k, v). suffix ''_USER'' k) st"

subsection \<open>\<open>BasePage\<close>: navigation and state queries\<close>

text \<open>\<open>helpers.wait_for_page_load\<close> and \<open>helpers.get_element_count\<close>.\<close>

definition helpers_wait_for_page_load :: "'p driver \<Rightarrow> int \<Rightarrow> ('p, unit) act" where
  "helpers_wait_for_page_load pg tmo = page_wait_for_load_state pg ''networkidle'' tmo"

definition helpers_get_element_count :: "'p driver \<Rightarrow> string \<Rightarrow> ('p, nat) act" where
  "helpers_get_element_count pg selector = locator_count pg selector"

definition wait_for_page_load :: "'p base_page \<Rightarrow> ('p, unit) act" where
  "wait_for_page_load self = helpers_wait_for_page_load (page self) (timeout self)"

definition navigate :: "'p base_page \<Rightarrow> string \<Rightarrow> ('p, unit) act" where
  "navigate self path =
     (let url = (if path \<noteq> [] then base_url self @ ''/'' @ path else base_url self)
      in bind_act (page_goto (page self) url) (\<lambda>_. wait_for_page_load self))"

definition select_option :: "'p base_page \<Rightarrow> string \<Rightarrow> string \<Rightarrow> ('p, unit) act" where
  "select_option self selector v = locator_select_option (page self) selector v"

text \<open>\<open>x or d\<close> for an optional string \<open>x\<close>: \<open>None\<close> and the empty string give \<open>d\<close>.\<close>

definition or_default :: "string option \<Rightarrow> string \<Rightarrow> string" where
  "or_default x d = (case x of None \<Rightarrow> d | Some t \<Rightarrow> if t = [] then d else t)"

definition get_text :: "'p base_page \<Rightarrow> string \<Rightarrow> ('p, string) act" where
  "get_text self selector =
     bind_act (locator_text_content (page self) selector) (\<lambda>r. ret (or_default r []))"

definition get_attribute :: "'p base_page \<Rightarrow> string \<Rightarrow> string \<Rightarrow> ('p, string option) act" where
  "get_attribute self selector attribute =
     locator_get_attribute (page self) selector attribute"

definition get_input_value :: "'p base_page \<Rightarrow> string \<Rightarrow> ('p, string) act" where
  "get_input_value self selector = locator_input_value (page self) selector"

definition is_visible :: "'p base_page \<Rightarrow> string \<Rightarrow> ('p, bool) act" where
  "is_visible self selector = locator_is_visible (page self) selector"

definition is_enabled :: "'p base_page \<Rightarrow> string \<Rightarrow> ('p, bool) act" where
  "is_enabled self selector = locator_is_enabled (page self) selector"

definition is_checked :: "'p base_page \<Rightarrow> string \<Rightarrow> ('p, bool) act" where
  "is_checked self selector = locator_is_checked (page self) selector"

definition get_element_count :: "'p base_page \<Rightarrow> string \<Rightarrow> ('p, nat) act" where
  "get_element_count self selector = helpers_get_element_count (page self) selector"

subsection \<open>Locators\<close>

text \<open>
  The selector constants of \<open>InventoryPageLocators\<close>, \<open>CartPageLocators\<close> and
  \<open>CheckoutStepTwoLocators\<close>; a name that occurs in two of the classes has the same
  value in both.
\<close>

definition CART_BADGE :: string where "CART_BADGE = ''.shopping_cart_badge''"
definition ITEM_NAME :: string where "ITEM_NAME = ''.inventory_item_name''"
definition ITEM_PRICE :: string where "ITEM_PRICE = ''.inventory_item_price''"
definition SORT_DROPDOWN :: string where
  "SORT_DROPDOWN = ''[data-test='product-sort-container']''"
definition CART_ITEM :: string where "CART_ITEM = ''.cart_item''"
definition REMOVE_BTN :: string where "REMOVE_BTN = ''[data-test^='remove']''"
definition SUBTOTAL :: string where "SUBTOTAL = ''.summary_subtotal_label''"
definition TAX :: string where "TAX = ''.summary_tax_label''"
definition TOTAL :: string where "TOTAL = ''.summary_total_label''"

subsection \<open>\<open>InventoryPage\<close>\<close>

text \<open>A list comprehension whose element expression calls the driver.\<close>

fun comprehension :: "(nat \<Rightarrow> ('p, 'a) act) \<Rightarrow> nat list \<Rightarrow> ('p, 'a list) act" where
  "comprehension f [] = ret []"
| "comprehension f (i # is) =
     bind_act (f i) (\<lambda>x. bind_act (comprehension f is) (\<lambda>xs. ret (x # xs)))"

definition get_product_names :: "'p base_page \<Rightarrow> ('p, string list) act" where
  "get_product_names self =
     bind_act (locator_all (page self) ITEM_NAME) (\<lambda>n.
       comprehension
         (\<lambda>i. bind_act (nth_text_content (page self) ITEM_NAME i) (\<lambda>r. ret (or_default r [])))
         [0..<n])"

definition get_product_prices :: "'f float_ops \<Rightarrow> 'p base_page \<Rightarrow> ('p, 'f list) act" where
  "get_product_prices fl self =
     bind_act (locator_all (page self) ITEM_PRICE) (\<lambda>n.
       comprehension
         (\<lambda>i. bind_act (nth_text_content (page self) ITEM_PRICE i)
            (\<lambda>r. case extract_price fl (or_default r ''0'') of
                    Inl e \<Rightarrow> throw e | Inr v \<Rightarrow> ret v))
         [0..<n])"

definition sort_by :: "'p base_page \<Rightarrow> string \<Rightarrow> ('p, 'p base_page) act" where
  "sort_by self option = bind_act (select_option self SORT_DROPDOWN option) (\<lambda>_. ret self)"

definition sort_by_name_asc :: "'p base_page \<Rightarrow> ('p, 'p base_page) act" where
  "sort_by_name_asc self = sort_by self ''az''"

definition sort_by_name_desc :: "'p base_page \<Rightarrow> ('p, 'p base_page) act" where
  "sort_by_name_desc self = sort_by self ''za''"

definition sort_by_price_low_to_high :: "'p base_page \<Rightarrow> ('p, 'p base_page) act" where
  "sort_by_price_low_to_high self = sort_by self ''lohi''"

definition sort_by_price_high_to_low :: "'p base_page \<Rightarrow> ('p, 'p base_page) act" where
  "sort_by_price_high_to_low self = sort_by self ''hilo''"



definition expect_products_sorted_by_name_asc :: "'p base_page \<Rightarrow> ('p, unit) act" where
  "expect_products_sorted_by_name_asc self =
     bind_act (get_product_names self) (\<lambda>names.
       if names = py_sorted names then ret ()
       else throw (AssertionError (''Products not sorted A-Z: '' @ list_repr str_repr names)))"

definition expect_products_sorted_by_name_desc :: "'p base_page \<Rightarrow> ('p, unit) act" where
  "expect_products_sorted_by_name_desc self =
     bind_act (get_product_names self) (\<lambda>names.
       if names = py_sorted_reverse names then ret ()
       else throw (AssertionError (''Products not sorted Z-A: '' @ list_repr str_repr names)))"

definition expect_products_sorted_by_price_asc ::
    "('f::linorder) float_ops \<Rightarrow> 'p base_page \<Rightarrow> ('p, unit) act" where
  "expect_products_sorted_by_price_asc fl self =
     bind_act (get_product_prices fl self) (\<lambda>prices.
       if prices = py_sorted prices then ret ()
       else throw (AssertionError (''Products not sorted by price low-high: ''
                     @ list_repr (float_repr fl) prices)))"

definition expect_products_sorted_by_price_desc ::
    "('f::linorder) float_ops \<Rightarrow> 'p base_page \<Rightarrow> ('p, unit) act" where
  "expect_products_sorted_by_price_desc fl self =
     bind_act (get_product_prices fl self) (\<lambda>prices.
       if prices = py_sorted_reverse prices then ret ()
       else throw (AssertionError (''Products not sorted by price high-low: ''
                     @ list_repr (float_repr fl) prices)))"

subsection \<open>\<open>CartPage\<close>\<close>

definition get_cart_items_count :: "'p base_page \<Rightarrow> ('p, nat) act" where
  "get_cart_items_count self = get_element_count self CART_ITEM"

text \<open>
  \<open>buttons[index]\<close> on the list that \<open>all()\<close> returned: a negative index counts from
  the end, and the list raises when the index is before its start.
\<close>

definition remove_item_by_index :: "'p base_page \<Rightarrow> int \<Rightarrow> ('p, 'p base_page) act" where
  "remove_item_by_index self index =
     bind_act (locator_all (page self) REMOVE_BTN) (\<lambda>n.
       if index < int n then
         bind_act
           (if 0 \<le> index then nth_click (page self) REMOVE_BTN (nat index)
            else if - index \<le> int n then nth_click (page self) REMOVE_BTN (nat (int n + index))
            else throw (IndexError ''list index out of range''))
           (\<lambda>_. ret self)
       else throw (IndexError (''Item index '' @ str_int index @ '' out of range'')))"

text \<open>
  \<open>remove_all_items\<close>: the loop may run forever, so the model is a partial function and
  \<open>None\<close> stands for a call that does not return.
\<close>

partial_function (option) remove_all_items ::
    "'p base_page \<Rightarrow> 'p \<Rightarrow> ((error + 'p base_page) \<times> 'p) option" where
  "remove_all_items self p =
     (case get_cart_items_count self p of
        (Inl e, p1) \<Rightarrow> Some (Inl e, p1)
      | (Inr n, p1) \<Rightarrow>
          if n > 0 then
            (case remove_item_by_index self 0 p1 of
               (Inl e, p2) \<Rightarrow> Some (Inl e, p2)
             | (Inr _, p2) \<Rightarrow> remove_all_items self p2)
          else Some (Inr self, p1))"

subsection \<open>\<open>CheckoutStepTwoPage\<close>\<close>

definition get_subtotal :: "'f float_ops \<Rightarrow> 'p base_page \<Rightarrow> ('p, 'f) act" where
  "get_subtotal fl self =
     bind_act (get_text self SUBTOTAL) (\<lambda>text.
       case extract_price fl text of Inl e \<Rightarrow> throw e | Inr v \<Rightarrow> ret v)"

definition get_tax :: "'f float_ops \<Rightarrow> 'p base_page \<Rightarrow> ('p, 'f) act" where
  "get_tax fl self =
     bind_act (get_text self TAX) (\<lambda>text.
       case extract_price fl text of Inl e \<Rightarrow> throw e | Inr v \<Rightarrow> ret v)"

definition get_total :: "'f float_ops \<Rightarrow> 'p base_page \<Rightarrow> ('p, 'f) act" where
  "get_total fl self =
     bind_act (get_text self TOTAL) (\<lambda>text.
       case extract_price fl text of Inl e \<Rightarrow> throw e | Inr v \<Rightarrow> ret v)"

definition expect_total_correct :: "'f float_ops \<Rightarrow> 'p base_page \<Rightarrow> ('p, unit) act" where
  "expect_total_correct fl self =
     bind_act (get_subtotal fl self) (\<lambda>subtotal.
     bind_act (get_tax fl self) (\<lambda>tax.
     bind_act (get_total fl self) (\<lambda>total.
       let expected_total = float_round2 fl (float_add fl subtotal tax)
       in if total = expected_total then ret ()
          else throw (AssertionError (''Total '' @ float_repr fl total
                        @ '' != subtotal '' @ float_repr fl subtotal
                        @ '' + tax '' @ float_repr fl tax)))))"


section \<open>The specification's notions\<close>

text \<open>The documented defaults of the configuration, with the six user identifiers.\<close>

definition default_settings :: "(string \<times> setting) list" where
  "default_settings =
     [(''BASE_URL'', SStr ''https://www.saucedemo.com''),
      (''STANDARD_USER'', SStr ''standard_user''),
      (''LOCKED_OUT_USER'', SStr ''locked_out_user''),
      (''PROBLEM_USER'', SStr ''problem_user''),
      (''PERFORMANCE_USER'', SStr ''performance_glitch_user''),
      (''ERROR_USER'', SStr ''error_user''),
      (''VISUAL_USER'', SStr ''visual_user''),
      (''PASSWORD'', SStr ''secret_sauce''),
      (''HEADLESS'', SBool False),
      (''SLOW_MO'', SInt 100),
      (''TIMEOUT'', SInt 30000),
      (''SCREENSHOT_ON_FAILURE'', SBool True),
      (''VIDEO_ON_FAILURE'', SBool True)]"

text \<open>
  A run of price characters \<open>r\<close> is the first maximal run of \<open>s\<close> when nothing before
  it is a price character and it cannot be extended to the right.
\<close>

definition first_maximal_run :: "string \<Rightarrow> string \<Rightarrow> bool" where
  "first_maximal_run s r =
     (\<exists>pre post. s = pre @ r @ post \<and> r \<noteq> [] \<and> list_all is_price_char r
        \<and> list_all (\<lambda>c. \<not> is_price_char c) pre
        \<and> (case post of [] \<Rightarrow> True | c # _ \<Rightarrow> \<not> is_price_char c))"

text \<open>
  A run of price characters is a decimal numeral when it has at most one dot and at
  least one digit; its value is the integer part plus the fraction.
\<close>

definition valid_numeral :: "string \<Rightarrow> bool" where
  "valid_numeral r = (count_list r (CHR ''.'') \<le> 1 \<and> list_ex is_digit r)"

definition decimal_value :: "string \<Rightarrow> rat" where
  "decimal_value r =
     (let ip = takeWhile (\<lambda>c. c \<noteq> CHR ''.'') r;
          fp = drop (Suc (length ip)) r
      in of_nat (nat_of_digits ip) + of_nat (nat_of_digits fp) / 10 ^ length fp)"

section \<open>Example browsers\<close>

text \<open>
  Exact decimal arithmetic in place of the floats, for the worked examples:
  rounding to two places is to the nearest hundredth.
\<close>

definition decimal_ops :: "rat float_ops" where
  "decimal_ops =
     \<lparr>float_of_rat = (\<lambda>q. q),
      float_add = (\<lambda>a b. a + b),
      float_round2 = (\<lambda>q. of_int (round (q * 100)) / 100),
      float_repr = (\<lambda>q. str_int (round (q * 100)) @ ''/100'')\<rparr>"

definition timeout_error :: error where
  "timeout_error = PlaywrightError ''TimeoutError''"

text \<open>
  A page on which no selector matches, as the driver reports it: counting finds
  nothing, the visibility check answers no, and every call that needs an element
  waits for one and fails when the timeout has passed.
\<close>

definition empty_page :: "'p driver" where
  "empty_page =
     \<lparr>page_goto = (\<lambda>url. ret ()),
      page_wait_for_load_state = (\<lambda>state tmo. ret ()),
      locator_click = (\<lambda>sel. throw timeout_error),
      locator_select_option = (\<lambda>sel v. throw timeout_error),
      locator_text_content = (\<lambda>sel. throw timeout_error),
      locator_get_attribute = (\<lambda>sel a. throw timeout_error),
      locator_input_value = (\<lambda>sel. throw timeout_error),
      locator_is_visible = (\<lambda>sel. ret False),
      locator_is_enabled = (\<lambda>sel. throw timeout_error),
      locator_is_checked = (\<lambda>sel. throw timeout_error),
      locator_count = (\<lambda>sel. ret 0),
      locator_all = (\<lambda>sel. ret 0),
      nth_click = (\<lambda>sel i. throw timeout_error),
      nth_text_content = (\<lambda>sel i. throw timeout_error),
      expect_to_be_hidden = (\<lambda>sel. ret ()),
      expect_to_have_text = (\<lambda>sel t. throw (AssertionError ''Locator expected to have text''))\<rparr>"

text \<open>A page object on a driver, with the default base URL and timeout.\<close>

definition page_object :: "'p driver \<Rightarrow> 'p base_page" where
  "page_object d = \<lparr>page = d, base_url = ''https://www.saucedemo.com'', timeout = 30000\<rparr>"

text \<open>A page that loads and whose network never becomes idle.\<close>

definition stalled_page :: "unit driver" where
  "stalled_page = empty_page\<lparr>page_wait_for_load_state := (\<lambda>state tmo. throw timeout_error)\<rparr>"

text \<open>A checkout overview with the three summary labels.\<close>

definition overview_page :: "unit driver" where
  "overview_page = empty_page
     \<lparr>locator_text_content := (\<lambda>sel.
        if sel = SUBTOTAL then ret (Some ''Item total: $29.99'')
        else if sel = TAX then ret (Some ''Tax: $2.40'')
        else if sel = TOTAL then ret (Some ''Total: $32.39'')
        else throw timeout_error)\<rparr>"

text \<open>A page whose cart badge shows 3.\<close>

definition badge_page :: "unit driver" where
  "badge_page = empty_page
     \<lparr>locator_is_visible := (\<lambda>sel. ret (sel = CART_BADGE)),
      locator_text_content := (\<lambda>sel.
        if sel = CART_BADGE then ret (Some ''3'') else throw timeout_error)\<rparr>"

text \<open>
  An inventory that loses an item when a sort option is selected: the state tells
  whether an option has been selected. Before, it lists Bike Light and Backpack;
  after, Backpack alone.
\<close>

definition lossy_inventory :: "bool driver" where
  "lossy_inventory = empty_page
     \<lparr>locator_select_option := (\<lambda>sel v b. (Inr (), True)),
      locator_all := (\<lambda>sel b.
        (Inr (if sel = ITEM_NAME \<or> sel = ITEM_PRICE then (if b then 1 else 2) else 0), b)),
      nth_text_content := (\<lambda>sel i b.
        (if sel = ITEM_NAME
         then Inr (Some (if b \<or> i = 1 then ''Backpack'' else ''Bike Light''))
         else if sel = ITEM_PRICE
         then Inr (Some (if b \<or> i = 1 then ''$29.99'' else ''$9.99''))
         else Inl timeout_error, b))\<rparr>"

text \<open>
  A cart whose state is the number of its items; each item has one remove button,
  and a click on a remove button removes one item.
\<close>

definition counting_cart :: "nat driver" where
  "counting_cart = empty_page
     \<lparr>locator_count := (\<lambda>sel n. (Inr (if sel = CART_ITEM then n else 0), n)),
      locator_all := (\<lambda>sel n. (Inr (if sel = REMOVE_BTN then n else 0), n)),
      nth_click := (\<lambda>sel i n.
        if sel = REMOVE_BTN \<and> i < n then (Inr (), n - 1) else (Inl timeout_error, n))\<rparr>"

text \<open>A page that records the selectors that are clicked.\<close>

definition clicking_page :: "string list driver" where
  "clicking_page = empty_page\<lparr>locator_click := (\<lambda>sel log. (Inr (), log @ [sel]))\<rparr>"

section \<open>Item identity\<close>

lemma data_test_name_filter_map:
  "str_replace (CHR '')'') [] (str_replace (CHR ''('') [] (str_replace (CHR '' '') ''-'' t)) =
     filter (\<lambda>c. c \<noteq> CHR ''('' \<and> c \<noteq> CHR '')'')
       (map (\<lambda>c. if c = CHR '' '' then CHR ''-'' else c) t)"
  by (induction t) (simp_all add: str_replace_def)

text \<open>
  C1. For every display name, adding to the cart clicks the selector
  \<open>[data-test='add-to-cart-ID']\<close> and removing from the cart page clicks
  \<open>[data-test='remove-ID']\<close>, where \<open>ID\<close> is the name in lower case with every space
  replaced by a hyphen and all parentheses stripped; both return the page object, and
  the inventory page's remove operation computes the same identifier.
\<close>

theorem item_controls_use_derived_identifier:
  "add_product_to_cart_by_name self s p =
     (case locator_click (page self) (''[data-test='add-to-cart-'' @ derive_spec s @ ''']'') p of
        (Inl e, p') \<Rightarrow> (Inl e, p')
      | (Inr u, p') \<Rightarrow> (Inr self, p'))
   \<and> remove_item_by_name self s p =
     (case locator_click (page self) (''[data-test='remove-'' @ derive_spec s @ ''']'') p of
        (Inl e, p') \<Rightarrow> (Inl e, p')
      | (Inr u, p') \<Rightarrow> (Inr self, p'))
   \<and> remove_product_from_cart_by_name self s = remove_item_by_name self s"
  by (simp add: add_product_to_cart_by_name_def remove_item_by_name_def
      remove_product_from_cart_by_name_def data_test_name_filter_map derive_spec_def
      click_def bind_act_def ret_def Let_def split: prod.splits sum.splits)

theorem item_controls_use_derived_identifier_witness:
  "add_product_to_cart_by_name (page_object clicking_page) ''Test.allTheThings() T-Shirt (Red)'' []
     = (Inr (page_object clicking_page),
        [''[data-test='add-to-cart-test.allthethings-t-shirt-red']''])
   \<and> remove_item_by_name (page_object clicking_page) ''Sauce Labs Backpack'' []
     = (Inr (page_object clicking_page), [''[data-test='remove-sauce-labs-backpack']''])"
proof -
  have d1: "derive_spec ''Test.allTheThings() T-Shirt (Red)'' = ''test.allthethings-t-shirt-red''"
    by code_simp
  have d2: "derive_spec ''Sauce Labs Backpack'' = ''sauce-labs-backpack''"
    by code_simp
  have c: "locator_click (page (page_object clicking_page)) = (\<lambda>sel log. (Inr (), log @ [sel]))"
    by (simp add: page_object_def clicking_page_def)
  show ?thesis
    using item_controls_use_derived_identifier
            [of "page_object clicking_page" "''Test.allTheThings() T-Shirt (Red)''" "[]"]
          item_controls_use_derived_identifier
            [of "page_object clicking_page" "''Sauce Labs Backpack''" "[]"]
    by (simp add: d1 d2 c)
qed

section \<open>Navigation\<close>

text \<open>
  C6. For every relative path, \<open>navigate\<close> loads the base URL itself when the path is
  empty and the base URL, a slash and the path otherwise, then waits for the network
  to be idle with the configured timeout; when the load succeeds and the wait fails,
  \<open>navigate\<close> fails with the error of the wait.
\<close>

theorem navigate_loads_then_waits:
  "navigate self path p =
     (case page_goto (page self)
             (if path = [] then base_url self else base_url self @ ''/'' @ path) p of
        (Inl e, p1) \<Rightarrow> (Inl e, p1)
      | (Inr u, p1) \<Rightarrow> page_wait_for_load_state (page self) ''networkidle'' (timeout self) p1)
   \<and> (page_goto (page self)
             (if path = [] then base_url self else base_url self @ ''/'' @ path) p = (Inr (), p1)
        \<and> page_wait_for_load_state (page self) ''networkidle'' (timeout self) p1 = (Inl e, p2)
      \<longrightarrow> navigate self path p = (Inl e, p2))"
  by (auto simp add: navigate_def wait_for_page_load_def helpers_wait_for_page_load_def
      bind_act_def Let_def split: prod.splits sum.splits)

theorem navigate_loads_then_waits_witness:
  "page_goto (page (page_object stalled_page)) ''https://www.saucedemo.com/cart.html'' ()
     = (Inr (), ())
   \<and> page_wait_for_load_state (page (page_object stalled_page)) ''networkidle'' 30000 ()
     = (Inl timeout_error, ())
   \<and> navigate (page_object stalled_page) ''cart.html'' () = (Inl timeout_error, ())"
  using navigate_loads_then_waits
          [of "page_object stalled_page" "''cart.html''" "()" "()" timeout_error "()"]
  by (simp add: page_object_def stalled_page_def empty_page_def ret_def throw_def)

section \<open>State queries\<close>

text \<open>
  C3 (as amended). Each state query makes one read on the driver's locator for the
  selector and returns what the driver yields, a failure of the driver included. The
  only default of the code is in \<open>get_text\<close>, which turns an absent text content into
  the empty string; \<open>get_attribute\<close> returns the driver's optional value as it is, and
  \<open>get_element_count\<close> returns the driver's count.
\<close>

theorem state_queries_return_driver_result:
  "get_text self sel p =
     (case locator_text_content (page self) sel p of
        (Inl e, p') \<Rightarrow> (Inl e, p')
      | (Inr None, p') \<Rightarrow> (Inr [], p')
      | (Inr (Some t), p') \<Rightarrow> (Inr t, p'))
   \<and> get_attribute self sel a = locator_get_attribute (page self) sel a
   \<and> get_input_value self sel = locator_input_value (page self) sel
   \<and> is_visible self sel = locator_is_visible (page self) sel
   \<and> is_enabled self sel = locator_is_enabled (page self) sel
   \<and> is_checked self sel = locator_is_checked (page self) sel
   \<and> get_element_count self sel = locator_count (page self) sel"
  by (simp add: get_text_def get_attribute_def get_input_value_def is_visible_def
      is_enabled_def is_checked_def get_element_count_def helpers_get_element_count_def
      bind_act_def ret_def or_default_def split: prod.splits sum.splits option.splits)

theorem state_queries_return_driver_result_witness:
  "get_text (page_object badge_page) CART_BADGE () = (Inr ''3'', ())
   \<and> get_text (page_object empty_page) CART_BADGE () = (Inl timeout_error, ())
   \<and> get_element_count (page_object empty_page) CART_BADGE () = (Inr 0, ())"
  using state_queries_return_driver_result [of "page_object badge_page" CART_BADGE "()"]
        state_queries_return_driver_result [of "page_object empty_page" CART_BADGE "()"]
  by (simp add: page_object_def badge_page_def empty_page_def ret_def throw_def)

text \<open>
  The claim as stated fails on a page where the selector matches nothing and the
  driver, after waiting, reports a timeout: the queries pass the failure on and
  return no default.
\<close>

theorem absent_element_defaults_counterexample:
  "locator_count (page (page_object empty_page)) ''#missing'' () = (Inr 0, ())
   \<and> get_input_value (page_object empty_page) ''#missing'' () = (Inl timeout_error, ())
   \<and> get_input_value (page_object empty_page) ''#missing'' () \<noteq> (Inr [], ())
   \<and> get_text (page_object empty_page) ''#missing'' () \<noteq> (Inr [], ())
   \<and> is_enabled (page_object empty_page) ''#missing'' () \<noteq> (Inr False, ())"
  by (simp add: page_object_def empty_page_def ret_def throw_def get_input_value_def
      get_text_def is_enabled_def bind_act_def)

section \<open>The cart badge\<close>



section \<open>The order total\<close>

text \<open>
  C2. On a checkout overview whose subtotal, tax and total labels are read as the
  floats \<open>sub\<close>, \<open>tax\<close> and \<open>tot\<close>, \<open>expect_total_correct\<close> succeeds if and only if
  \<open>tot\<close> equals \<open>round(sub + tax, 2)\<close>; otherwise it raises an assertion error whose
  message carries the total, the subtotal and the tax.
\<close>

theorem total_assertion_succeeds_iff_rounded_sum:
  assumes "get_subtotal fl self p = (Inr sub, p1)"
    and "get_tax fl self p1 = (Inr tax, p2)"
    and "get_total fl self p2 = (Inr tot, p3)"
  shows "(expect_total_correct fl self p = (Inr (), p3))
           = (tot = float_round2 fl (float_add fl sub tax))
       \<and> (tot \<noteq> float_round2 fl (float_add fl sub tax) \<longrightarrow>
            expect_total_correct fl self p =
              (Inl (AssertionError (''Total '' @ float_repr fl tot
                      @ '' != subtotal '' @ float_repr fl sub
                      @ '' + tax '' @ float_repr fl tax)), p3))"
  using assms
  by (simp add: expect_total_correct_def bind_act_def ret_def throw_def Let_def)

theorem total_assertion_succeeds_iff_rounded_sum_witness:
  "get_subtotal decimal_ops (page_object overview_page) () = (Inr (2999 / 100), ())
   \<and> get_tax decimal_ops (page_object overview_page) () = (Inr (240 / 100), ())
   \<and> get_total decimal_ops (page_object overview_page) () = (Inr (3239 / 100), ())
   \<and> (3239 / 100 :: rat)
       = float_round2 decimal_ops (float_add decimal_ops (2999 / 100) (240 / 100))
   \<and> expect_total_correct decimal_ops (page_object overview_page) () = (Inr (), ())"
proof -
  note ev = extract_price_def re_search_price_def is_price_char_def is_digit_def
    py_float_def nat_of_digits_def digit_val_def decimal_ops_def
  have e1: "extract_price decimal_ops ''Item total: $29.99'' = Inr (2999 / 100)"
    by (simp add: ev)
  have e2: "extract_price decimal_ops ''Tax: $2.40'' = Inr (240 / 100)"
    by (simp add: ev)
  have e3: "extract_price decimal_ops ''Total: $32.39'' = Inr (3239 / 100)"
    by (simp add: ev)
  have t: "locator_text_content (page (page_object overview_page)) =
        (\<lambda>sel. if sel = SUBTOTAL then ret (Some ''Item total: $29.99'')
        else if sel = TAX then ret (Some ''Tax: $2.40'')
        else if sel = TOTAL then ret (Some ''Total: $32.39'')
        else throw timeout_error)"
    by (simp add: page_object_def overview_page_def)
  have n: "TAX \<noteq> SUBTOTAL" "TOTAL \<noteq> SUBTOTAL" "TOTAL \<noteq> TAX"
    by (simp_all add: TAX_def SUBTOTAL_def TOTAL_def)
  have h1: "get_subtotal decimal_ops (page_object overview_page) () = (Inr (2999 / 100), ())"
    by (simp add: get_subtotal_def get_text_def t bind_act_def ret_def or_default_def e1)
  have h2: "get_tax decimal_ops (page_object overview_page) () = (Inr (240 / 100), ())"
    by (simp add: get_tax_def get_text_def t n bind_act_def ret_def or_default_def e2)
  have h3: "get_total decimal_ops (page_object overview_page) () = (Inr (3239 / 100), ())"
    by (simp add: get_total_def get_text_def t n bind_act_def ret_def or_default_def e3)
  have r: "(3239 / 100 :: rat)
      = float_round2 decimal_ops (float_add decimal_ops (2999 / 100) (240 / 100))"
    by (simp add: decimal_ops_def)
  show ?thesis
    using total_assertion_succeeds_iff_rounded_sum [OF h1 h2 h3] h1 h2 h3 r by simp
qed

section \<open>Configuration\<close>

lemma py_int_defaults: "py_int ''100'' = Inr 100" "py_int ''30000'' = Inr 30000"
  by (simp_all add: py_int_def str_strip_def is_space_def is_digit_def nat_of_digits_def
      digit_val_def)

lemma str_lower_flags: "str_lower ''false'' = ''false''" "str_lower ''true'' = ''true''"
  by (simp_all add: str_lower_def char_lower_def)

lemma Settings_unset: "Settings Map.empty = Inr default_settings"
  by (simp add: Settings_def getenv_def py_int_defaults str_lower_flags default_settings_def)

lemma Settings_user_identifiers:
  "Settings env = Inr st \<Longrightarrow>
     map fst (user_identifiers st) =
       [''STANDARD_USER'', ''LOCKED_OUT_USER'', ''PROBLEM_USER'', ''PERFORMANCE_USER'',
        ''ERROR_USER'', ''VISUAL_USER'']"
  by (auto simp add: Settings_def user_identifiers_def suffix_to_prefix split: sum.splits)

lemma Settings_keys: "Settings env = Inr st \<Longrightarrow> map fst st = map fst default_settings"
  by (auto simp add: Settings_def default_settings_def split: sum.splits)

lemma Settings_default_of_unset_key:
  assumes S: "Settings env = Inr st"
  shows "list_all (\<lambda>k. env k = None \<longrightarrow> map_of st k = map_of default_settings k)
           (map fst default_settings)"
proof -
  from S obtain a b where a: "py_int (getenv env ''SLOW_MO'' ''100'') = Inr a"
    and b: "py_int (getenv env ''TIMEOUT'' ''30000'') = Inr b"
    and st: "st = [(''BASE_URL'', SStr (getenv env ''BASE_URL'' ''https://www.saucedemo.com'')),
             (''STANDARD_USER'', SStr (getenv env ''STANDARD_USER'' ''standard_user'')),
             (''LOCKED_OUT_USER'', SStr (getenv env ''LOCKED_OUT_USER'' ''locked_out_user'')),
             (''PROBLEM_USER'', SStr (getenv env ''PROBLEM_USER'' ''problem_user'')),
             (''PERFORMANCE_USER'',
                SStr (getenv env ''PERFORMANCE_USER'' ''performance_glitch_user'')),
             (''ERROR_USER'', SStr (getenv env ''ERROR_USER'' ''error_user'')),
             (''VISUAL_USER'', SStr (getenv env ''VISUAL_USER'' ''visual_user'')),
             (''PASSWORD'', SStr (getenv env ''PASSWORD'' ''secret_sauce'')),
             (''HEADLESS'', SBool (str_lower (getenv env ''HEADLESS'' ''false'') = ''true'')),
             (''SLOW_MO'', SInt a),
             (''TIMEOUT'', SInt b),
             (''SCREENSHOT_ON_FAILURE'',
                SBool (str_lower (getenv env ''SCREENSHOT_ON_FAILURE'' ''true'') = ''true'')),
             (''VIDEO_ON_FAILURE'',
                SBool (str_lower (getenv env ''VIDEO_ON_FAILURE'' ''true'') = ''true''))]"
    by (auto simp add: Settings_def split: sum.splits)
  have a': "env ''SLOW_MO'' = None \<Longrightarrow> a = 100"
    using a by (simp add: getenv_def py_int_defaults)
  have b': "env ''TIMEOUT'' = None \<Longrightarrow> b = 30000"
    using b by (simp add: getenv_def py_int_defaults)
  show ?thesis
    by (simp add: st default_settings_def getenv_def str_lower_flags a' b')
qed

lemma Settings_default_of_unset:
  assumes "env k = None" and S: "Settings env = Inr st"
  shows "map_of st k = map_of default_settings k"
proof (cases "k \<in> fst ` set default_settings")
  case True
  then have "k \<in> set (map fst default_settings)" by simp
  with Settings_default_of_unset_key [OF S] assms(1) show ?thesis
    unfolding list_all_iff by blast
next
  case False
  have "fst ` set st = fst ` set default_settings"
    using Settings_keys [OF S] by (metis set_map)
  with False have "map_of st k = None" "map_of default_settings k = None"
    by (simp_all add: map_of_eq_None_iff)
  then show ?thesis by simp
qed

text \<open>
  C7 (as amended). With no variable set, the settings are the documented defaults;
  whenever a variable is unset, the attribute of its name has the documented default;
  and the settings define exactly six user identifiers: the standard, locked-out,
  problem, performance, error and visual users.
\<close>

theorem settings_default_when_unset:
  "Settings Map.empty = Inr default_settings
   \<and> (env k = None \<and> Settings env = Inr st \<longrightarrow> map_of st k = map_of default_settings k)
   \<and> (Settings env = Inr st \<longrightarrow>
        map fst (user_identifiers st) =
          [''STANDARD_USER'', ''LOCKED_OUT_USER'', ''PROBLEM_USER'', ''PERFORMANCE_USER'',
           ''ERROR_USER'', ''VISUAL_USER''])"
  using Settings_unset Settings_default_of_unset Settings_user_identifiers by blast

theorem settings_default_when_unset_witness:
  "[''HEADLESS'' \<mapsto> ''TRUE''] ''TIMEOUT'' = None
   \<and> Settings [''HEADLESS'' \<mapsto> ''TRUE''] = Inr (default_settings[8 := (''HEADLESS'', SBool True)])
   \<and> map_of (default_settings[8 := (''HEADLESS'', SBool True)]) ''TIMEOUT'' = Some (SInt 30000)
   \<and> map fst (user_identifiers (default_settings[8 := (''HEADLESS'', SBool True)])) =
          [''STANDARD_USER'', ''LOCKED_OUT_USER'', ''PROBLEM_USER'', ''PERFORMANCE_USER'',
           ''ERROR_USER'', ''VISUAL_USER'']"
proof -
  have l: "str_lower ''TRUE'' = ''true''" by code_simp
  have e: "[''HEADLESS'' \<mapsto> ''TRUE''] ''TIMEOUT'' = None" by simp
  have s: "Settings [''HEADLESS'' \<mapsto> ''TRUE'']
             = Inr (default_settings[8 := (''HEADLESS'', SBool True)])"
    by (simp add: Settings_def getenv_def py_int_defaults str_lower_flags l default_settings_def)
  have d: "map_of default_settings ''TIMEOUT'' = Some (SInt 30000)"
    by (simp add: default_settings_def)
  show ?thesis
    using settings_default_when_unset
            [of "[''HEADLESS'' \<mapsto> ''TRUE'']" "''TIMEOUT''"
                "default_settings[8 := (''HEADLESS'', SBool True)]"] e s d
    by simp
qed

text \<open>The settings define six user identifiers, not five.\<close>

theorem five_user_identifiers_counterexample:
  "Settings Map.empty = Inr default_settings
   \<and> length (user_identifiers default_settings) = 6
   \<and> length (user_identifiers default_settings) \<noteq> 5"
  by (simp add: Settings_unset)
     (simp add: default_settings_def user_identifiers_def suffix_to_prefix)

section \<open>Prices\<close>

lemma re_search_price_alt:
  "re_search_price s =
     (if dropWhile (\<lambda>c. \<not> is_price_char c) s = [] then None
      else Some (takeWhile is_price_char (dropWhile (\<lambda>c. \<not> is_price_char c) s)))"
  by (cases "dropWhile (\<lambda>c. \<not> is_price_char c) s")
     (simp_all add: re_search_price_def del: takeWhile.simps dropWhile_eq_Nil_conv)

lemma re_search_price_None:
  "re_search_price s = None \<longleftrightarrow> list_all (\<lambda>c. \<not> is_price_char c) s"
  by (simp add: re_search_price_alt list_all_iff)

lemma re_search_price_run:
  assumes "re_search_price s = Some r"
  shows "first_maximal_run s r"
proof -
  let ?pre = "takeWhile (\<lambda>c. \<not> is_price_char c) s"
  let ?rest = "dropWhile (\<lambda>c. \<not> is_price_char c) s"
  let ?post = "dropWhile is_price_char ?rest"
  from assms have rest: "?rest \<noteq> []" and r: "r = takeWhile is_price_char ?rest"
    by (simp_all add: re_search_price_alt split: if_splits)
  from rest have "is_price_char (hd ?rest)"
    using hd_dropWhile [of "\<lambda>c. \<not> is_price_char c" s] by simp
  with rest have 1: "r \<noteq> []"
    unfolding r by (cases ?rest) simp_all
  have 2: "s = ?pre @ r @ ?post"
    unfolding r by simp
  have 3: "list_all is_price_char r"
    unfolding r list_all_iff by (blast dest: set_takeWhileD)
  have 4: "list_all (\<lambda>c. \<not> is_price_char c) ?pre"
    unfolding list_all_iff by (blast dest: set_takeWhileD)
  have 5: "case ?post of [] \<Rightarrow> True | c # _ \<Rightarrow> \<not> is_price_char c"
  proof (cases ?post)
    case Nil
    then show ?thesis by (simp only: list.case)
  next
    case (Cons c cs)
    then have "?post \<noteq> []" by simp
    from hd_dropWhile [OF this] Cons show ?thesis by simp
  qed
  show ?thesis
    unfolding first_maximal_run_def
    by (rule exI [of _ ?pre], rule exI [of _ ?post]) (intro conjI 1 2 3 4 5)
qed

lemma run_re_search_price:
  assumes "first_maximal_run s r"
  shows "re_search_price s = Some r"
proof -
  from assms obtain pre post where s: "s = pre @ r @ post" and ne: "r \<noteq> []"
    and r: "list_all is_price_char r" and pre: "list_all (\<lambda>c. \<not> is_price_char c) pre"
    and post: "case post of [] \<Rightarrow> True | c # _ \<Rightarrow> \<not> is_price_char c"
    unfolding first_maximal_run_def by blast
  from ne r have hd: "is_price_char (hd r)"
    by (cases r) simp_all
  from pre have "dropWhile (\<lambda>c. \<not> is_price_char c) s = dropWhile (\<lambda>c. \<not> is_price_char c) (r @ post)"
    by (simp add: s list_all_iff)
  also from ne hd have "\<dots> = r @ post"
    by (cases r) simp_all
  finally have d: "dropWhile (\<lambda>c. \<not> is_price_char c) s = r @ post" .
  from post have "takeWhile is_price_char post = []"
    by (cases post) simp_all
  with r have t: "takeWhile is_price_char (r @ post) = r"
    by (simp add: list_all_iff)
  from ne show ?thesis
    unfolding re_search_price_alt d t by simp
qed

lemma nat_of_digits_snoc: "nat_of_digits (zs @ [y]) = 10 * nat_of_digits zs + digit_val y"
  by (simp add: nat_of_digits_def)

lemma nat_of_digits_append:
  "nat_of_digits (xs @ ys) = nat_of_digits xs * 10 ^ length ys + nat_of_digits ys"
proof (induction ys rule: rev_induct)
  case Nil
  show ?case by (simp add: nat_of_digits_def)
next
  case (snoc y ys)
  have "nat_of_digits (xs @ ys @ [y]) = nat_of_digits ((xs @ ys) @ [y])"
    by simp
  also have "\<dots> = 10 * nat_of_digits (xs @ ys) + digit_val y"
    by (rule nat_of_digits_snoc)
  also have "\<dots> = 10 * (nat_of_digits xs * 10 ^ length ys + nat_of_digits ys) + digit_val y"
    by (simp only: snoc.IH)
  also have "\<dots> = nat_of_digits xs * 10 ^ length (ys @ [y]) + nat_of_digits (ys @ [y])"
    by (simp add: nat_of_digits_snoc algebra_simps)
  finally show ?case .
qed

lemma nat_of_digits_Nil: "nat_of_digits [] = 0"
  by (simp add: nat_of_digits_def)

lemma dot_not_digit: "\<not> is_digit (CHR ''.'')"
  by (simp add: is_digit_def)

text \<open>A string of price characters, split at its first dot.\<close>

lemma price_run_cases:
  assumes "list_all is_price_char r"
  obtains (no_dot) "list_all is_digit r" "takeWhile (\<lambda>c. c \<noteq> CHR ''.'') r = r"
      "dropWhile (\<lambda>c. c \<noteq> CHR ''.'') r = []"
  | (dot) ip fp where "r = ip @ CHR ''.'' # fp" "list_all is_digit ip"
      "list_all is_price_char fp"
      "takeWhile (\<lambda>c. c \<noteq> CHR ''.'') r = ip"
      "dropWhile (\<lambda>c. c \<noteq> CHR ''.'') r = CHR ''.'' # fp"
proof (cases "CHR ''.'' \<in> set r")
  case False
  then have "\<forall>c\<in>set r. c \<noteq> CHR ''.''" by blast
  then have t: "takeWhile (\<lambda>c. c \<noteq> CHR ''.'') r = r"
    and d: "dropWhile (\<lambda>c. c \<noteq> CHR ''.'') r = []"
    by simp_all
  from False assms have g: "list_all is_digit r"
    unfolding list_all_iff is_price_char_def by blast
  from g t d show ?thesis by (rule no_dot)
next
  case True
  then obtain ip fp where r: "r = ip @ CHR ''.'' # fp" and ip: "CHR ''.'' \<notin> set ip"
    by (meson split_list_first)
  from ip have ipall: "\<forall>c\<in>set ip. c \<noteq> CHR ''.''" by blast
  have t: "takeWhile (\<lambda>c. c \<noteq> CHR ''.'') r = ip"
    unfolding r using ipall by (simp add: takeWhile_append2)
  have d: "dropWhile (\<lambda>c. c \<noteq> CHR ''.'') r = CHR ''.'' # fp"
    unfolding r using ipall by (simp add: dropWhile_append2)
  from assms ip have i: "list_all is_digit ip"
    unfolding r list_all_iff is_price_char_def by auto
  from assms have f: "list_all is_price_char fp"
    unfolding r by simp
  from r i f t d show ?thesis by (rule dot)
qed

lemma digits_count_dot: "list_all is_digit xs \<Longrightarrow> count_list xs (CHR ''.'') = 0"
  by (induction xs) (auto simp add: dot_not_digit)

lemma py_float_of_run:
  assumes "list_all is_price_char r"
  shows "py_float fl r =
           (if valid_numeral r then Inr (float_of_rat fl (decimal_value r))
            else Inl (ValueError (''could not convert string to float: ''
                        @ [CHR 0x27] @ r @ [CHR 0x27])))"
  using assms
proof (cases rule: price_run_cases)
  case no_dot
  have v: "valid_numeral r \<longleftrightarrow> r \<noteq> []"
    using no_dot(1) by (cases r) (simp_all add: valid_numeral_def digits_count_dot)
  show ?thesis
    by (simp add: py_float_def decimal_value_def no_dot(2,3) v nat_of_digits_Nil
        del: dropWhile_eq_Nil_conv)
next
  case (dot ip fp)
  have c: "count_list r (CHR ''.'') = Suc (count_list fp (CHR ''.''))"
    by (simp add: dot(1) digits_count_dot [OF dot(2)])
  have nd: "CHR ''.'' \<notin> set fp \<Longrightarrow> list_all is_digit fp"
    using dot(3) unfolding list_all_iff is_price_char_def by blast
  have e: "CHR ''.'' \<notin> set fp \<Longrightarrow> list_ex is_digit r \<longleftrightarrow> ip \<noteq> [] \<or> fp \<noteq> []"
  proof -
    assume "CHR ''.'' \<notin> set fp"
    from nd [OF this] have "list_ex is_digit fp \<longleftrightarrow> fp \<noteq> []"
      by (cases fp) simp_all
    moreover from dot(2) have "list_ex is_digit ip \<longleftrightarrow> ip \<noteq> []"
      by (cases ip) simp_all
    ultimately show ?thesis
      by (simp add: dot(1) dot_not_digit)
  qed
  have v: "valid_numeral r \<longleftrightarrow> CHR ''.'' \<notin> set fp \<and> (ip \<noteq> [] \<or> fp \<noteq> [])"
  proof -
    have "Suc (count_list fp (CHR ''.'')) \<le> 1 \<longleftrightarrow> CHR ''.'' \<notin> set fp"
      by (simp add: count_list_0_iff)
    with e show ?thesis
      unfolding valid_numeral_def c by blast
  qed
  have dr: "drop (Suc (length ip)) r = fp"
    by (simp add: dot(1))
  have val: "(of_nat (nat_of_digits (ip @ fp)) / 10 ^ length fp :: rat) = decimal_value r"
    unfolding decimal_value_def Let_def dot(4) dr
    by (simp add: nat_of_digits_append add_divide_distrib)
  show ?thesis
    unfolding py_float_def dot(4,5) Let_def list.case val v
    by simp
qed

lemma first_maximal_run_chars: "first_maximal_run s r \<Longrightarrow> list_all is_price_char r"
  unfolding first_maximal_run_def by blast

lemma extract_price_of_run:
  assumes "first_maximal_run s r"
  shows "extract_price fl s =
           (if valid_numeral r then Inr (float_of_rat fl (decimal_value r))
            else Inl (ValueError (''could not convert string to float: ''
                        @ [CHR 0x27] @ r @ [CHR 0x27])))"
  unfolding extract_price_def run_re_search_price [OF assms] option.case
  by (rule py_float_of_run [OF first_maximal_run_chars [OF assms]])

lemma extract_price_no_run:
  assumes "\<not> (\<exists>r. first_maximal_run s r)"
  shows "extract_price fl s = Inl (ValueError (''Could not extract price from: '' @ s))"
proof (cases "re_search_price s")
  case None
  then show ?thesis by (simp add: extract_price_def)
next
  case (Some r)
  from re_search_price_run [OF this] assms show ?thesis by blast
qed

text \<open>
  C8. \<open>extract_price\<close> finds the first maximal run of digits and dots of its input.
  When the run is a decimal numeral, the result is the float of its value; when it is
  not, or when the input has no such run, \<open>ValueError\<close> is raised, and in no other
  case; no other error is raised. In particular the price of \<open>$29.99\<close> is the float
  29.99.
\<close>

theorem extract_price_first_run:
  "(re_search_price s = Some r \<longleftrightarrow> first_maximal_run s r)
   \<and> (first_maximal_run s r \<longrightarrow>
        extract_price fl s =
          (if valid_numeral r then Inr (float_of_rat fl (decimal_value r))
           else Inl (ValueError (''could not convert string to float: ''
                       @ [CHR 0x27] @ r @ [CHR 0x27]))))
   \<and> (\<not> (\<exists>q. first_maximal_run s q) \<longrightarrow>
        extract_price fl s = Inl (ValueError (''Could not extract price from: '' @ s)))
   \<and> ((\<exists>m. extract_price fl s = Inl (ValueError m)) \<longleftrightarrow>
        (\<not> (\<exists>q. first_maximal_run s q) \<or> (\<exists>q. first_maximal_run s q \<and> \<not> valid_numeral q)))
   \<and> ((\<exists>e. extract_price fl s = Inl e) \<longleftrightarrow> (\<exists>m. extract_price fl s = Inl (ValueError m)))
   \<and> extract_price fl ''$29.99'' = Inr (float_of_rat fl (2999 / 100))"
proof -
  have a: "re_search_price s = Some r \<longleftrightarrow> first_maximal_run s r"
    using re_search_price_run run_re_search_price by blast
  have d: "(\<exists>m. extract_price fl s = Inl (ValueError m)) \<longleftrightarrow>
        (\<not> (\<exists>q. first_maximal_run s q) \<or> (\<exists>q. first_maximal_run s q \<and> \<not> valid_numeral q))"
  proof (cases "\<exists>q. first_maximal_run s q")
    case False
    with extract_price_no_run [OF False, of fl] show ?thesis by simp
  next
    case True
    then obtain q where q: "first_maximal_run s q" ..
    have u: "q' = q" if "first_maximal_run s q'" for q'
      using run_re_search_price [OF that] run_re_search_price [OF q] by simp
    show ?thesis
    proof (cases "valid_numeral q")
      case True
      with extract_price_of_run [OF q, of fl]
      have l: "\<not> (\<exists>m. extract_price fl s = Inl (ValueError m))" by simp
      from True u have "\<not> (\<exists>q'. first_maximal_run s q' \<and> \<not> valid_numeral q')" by blast
      with l q show ?thesis by blast
    next
      case False
      with extract_price_of_run [OF q, of fl]
      have "\<exists>m. extract_price fl s = Inl (ValueError m)" by simp
      with False q show ?thesis by blast
    qed
  qed
  have e: "(\<exists>e. extract_price fl s = Inl e) \<longleftrightarrow> (\<exists>m. extract_price fl s = Inl (ValueError m))"
  proof (cases "\<exists>q. first_maximal_run s q")
    case False
    with extract_price_no_run [OF False, of fl] show ?thesis by simp
  next
    case True
    then obtain q where q: "first_maximal_run s q" ..
    from extract_price_of_run [OF q, of fl] show ?thesis
      by (cases "valid_numeral q") simp_all
  qed
  have f: "extract_price fl ''$29.99'' = Inr (float_of_rat fl (2999 / 100))"
    by (simp add: extract_price_def re_search_price_def is_price_char_def is_digit_def
        py_float_def nat_of_digits_def digit_val_def)
  from a extract_price_of_run [of s r fl] extract_price_no_run [of s fl] d e f
  show ?thesis by blast
qed

theorem extract_price_first_run_witness:
  "first_maximal_run ''Total: $32.39'' ''32.39''
   \<and> valid_numeral ''32.39''
   \<and> extract_price decimal_ops ''Total: $32.39'' = Inr (3239 / 100)
   \<and> first_maximal_run ''v1.2.3'' ''1.2.3''
   \<and> \<not> valid_numeral ''1.2.3''
   \<and> extract_price decimal_ops ''v1.2.3''
       = Inl (ValueError (''could not convert string to float: ''
                @ [CHR 0x27] @ ''1.2.3'' @ [CHR 0x27]))
   \<and> \<not> (\<exists>q. first_maximal_run ''free'' q)
   \<and> extract_price decimal_ops ''free''
       = Inl (ValueError ''Could not extract price from: free'')"
proof -
  note ev = re_search_price_def is_price_char_def is_digit_def
  have r1: "re_search_price ''Total: $32.39'' = Some ''32.39''" by (simp add: ev)
  have r2: "re_search_price ''v1.2.3'' = Some ''1.2.3''" by (simp add: ev)
  have r3: "re_search_price ''free'' = None" by (simp add: ev)
  have v1: "valid_numeral ''32.39''" by (simp add: valid_numeral_def is_digit_def)
  have v2: "\<not> valid_numeral ''1.2.3''" by (simp add: valid_numeral_def)
  have d1: "decimal_value ''32.39'' = 3239 / 100"
    by (simp add: decimal_value_def nat_of_digits_def digit_val_def)
  have f: "float_of_rat decimal_ops = (\<lambda>q. q)" by (simp add: decimal_ops_def)
  have n: "\<not> (\<exists>q. first_maximal_run ''free'' q)"
    using extract_price_first_run [of "''free''" _ decimal_ops] r3 by (metis option.distinct(1))
  show ?thesis
    using extract_price_first_run [of "''Total: $32.39''" "''32.39''" decimal_ops]
          extract_price_first_run [of "''v1.2.3''" "''1.2.3''" decimal_ops]
          extract_price_first_run [of "''free''" "[]" decimal_ops]
          r1 r2 n v1 v2 d1 f
    by simp
qed

section \<open>Sort order\<close>

lemma sort_of_permutation: "mset xs = mset ys \<Longrightarrow> sort xs = sort ys"
  by (rule properties_for_sort) simp_all

lemma py_sorted_reverse_rev_sort: "py_sorted_reverse xs = rev (sort xs)"
  unfolding py_sorted_reverse_def by (simp add: sort_of_permutation [of "rev xs" xs])

lemma expect_names_asc:
  assumes "get_product_names self p = (Inr names, p')"
  shows "expect_products_sorted_by_name_asc self p =
           (if names = sort names then (Inr (), p')
            else (Inl (AssertionError (''Products not sorted A-Z: ''
                         @ list_repr str_repr names)), p'))"
  using assms
  by (simp add: expect_products_sorted_by_name_asc_def bind_act_def py_sorted_def ret_def
      throw_def)

lemma expect_names_desc:
  assumes "get_product_names self p = (Inr names, p')"
  shows "expect_products_sorted_by_name_desc self p =
           (if names = rev (sort names) then (Inr (), p')
            else (Inl (AssertionError (''Products not sorted Z-A: ''
                         @ list_repr str_repr names)), p'))"
  using assms
  by (simp add: expect_products_sorted_by_name_desc_def bind_act_def
      py_sorted_reverse_rev_sort ret_def throw_def)

lemma expect_prices_asc:
  assumes "get_product_prices fl self p = (Inr prices, p')"
  shows "expect_products_sorted_by_price_asc fl self p =
           (if prices = sort prices then (Inr (), p')
            else (Inl (AssertionError (''Products not sorted by price low-high: ''
                         @ list_repr (float_repr fl) prices)), p'))"
  using assms
  by (simp add: expect_products_sorted_by_price_asc_def bind_act_def py_sorted_def ret_def
      throw_def)

lemma expect_prices_desc:
  assumes "get_product_prices fl self p = (Inr prices, p')"
  shows "expect_products_sorted_by_price_desc fl self p =
           (if prices = rev (sort prices) then (Inr (), p')
            else (Inl (AssertionError (''Products not sorted by price high-low: ''
                         @ list_repr (float_repr fl) prices)), p'))"
  using assms
  by (simp add: expect_products_sorted_by_price_desc_def bind_act_def
      py_sorted_reverse_rev_sort ret_def throw_def)

lemma upt_two: "[0..<2] = [0, 1]" "[0..<1] = [0]"
  by (simp_all add: numeral_2_eq_2)

lemma lossy_names:
  "get_product_names (page_object lossy_inventory) False
     = (Inr [''Bike Light'', ''Backpack''], False)"
  "get_product_names (page_object lossy_inventory) True = (Inr [''Backpack''], True)"
  by (simp_all add: get_product_names_def page_object_def lossy_inventory_def bind_act_def
      ret_def or_default_def upt_two ITEM_NAME_def ITEM_PRICE_def)

lemma lossy_prices:
  "get_product_prices decimal_ops (page_object lossy_inventory) False
     = (Inr [999 / 100, 2999 / 100], False)"
proof -
  note ev = extract_price_def re_search_price_def is_price_char_def is_digit_def
    py_float_def nat_of_digits_def digit_val_def decimal_ops_def
  have e1: "extract_price decimal_ops ''$9.99'' = Inr (999 / 100)" by (simp add: ev)
  have e2: "extract_price decimal_ops ''$29.99'' = Inr (2999 / 100)" by (simp add: ev)
  show ?thesis
    by (simp add: get_product_prices_def page_object_def lossy_inventory_def bind_act_def
        ret_def or_default_def upt_two ITEM_NAME_def ITEM_PRICE_def e1 e2)
qed

lemma lossy_sort:
  "sort_by_name_asc (page_object lossy_inventory) False
     = (Inr (page_object lossy_inventory), True)"
  by (simp add: sort_by_name_asc_def sort_by_def select_option_def page_object_def
      lossy_inventory_def bind_act_def ret_def)

lemma sort_example: "sort [''Bike Light'', ''Backpack''] = [''Backpack'', ''Bike Light'']"
  by code_simp

text \<open>
  C4 (as amended). Each of the four sort assertions reads the displayed names or
  prices and succeeds if and only if the displayed sequence equals a sorted copy of
  itself, ascending or descending, and raises an assertion error otherwise. When the
  displayed sequence is a permutation of the sequence before the sort, this is the
  same as being the sorted permutation of that sequence.
\<close>

theorem sort_assertions_compare_with_sorted_copy:
  "(get_product_names self p = (Inr names, p') \<longrightarrow>
      expect_products_sorted_by_name_asc self p =
        (if names = sort names then (Inr (), p')
         else (Inl (AssertionError (''Products not sorted A-Z: ''
                      @ list_repr str_repr names)), p'))
    \<and> expect_products_sorted_by_name_desc self p =
        (if names = rev (sort names) then (Inr (), p')
         else (Inl (AssertionError (''Products not sorted Z-A: ''
                      @ list_repr str_repr names)), p'))
    \<and> (mset names = mset before \<longrightarrow>
          ((expect_products_sorted_by_name_asc self p = (Inr (), p')) = (names = sort before))
        \<and> ((expect_products_sorted_by_name_desc self p = (Inr (), p'))
             = (names = rev (sort before)))))
   \<and> (get_product_prices fl self p = (Inr prices, p') \<longrightarrow>
      expect_products_sorted_by_price_asc fl self p =
        (if prices = sort prices then (Inr (), p')
         else (Inl (AssertionError (''Products not sorted by price low-high: ''
                      @ list_repr (float_repr fl) prices)), p'))
    \<and> expect_products_sorted_by_price_desc fl self p =
        (if prices = rev (sort prices) then (Inr (), p')
         else (Inl (AssertionError (''Products not sorted by price high-low: ''
                      @ list_repr (float_repr fl) prices)), p'))
    \<and> (mset prices = mset before_prices \<longrightarrow>
          ((expect_products_sorted_by_price_asc fl self p = (Inr (), p'))
             = (prices = sort before_prices))
        \<and> ((expect_products_sorted_by_price_desc fl self p = (Inr (), p'))
             = (prices = rev (sort before_prices)))))"
proof -
  have a: "mset names = mset before \<Longrightarrow> sort names = sort before"
    by (rule sort_of_permutation)
  have b: "mset prices = mset before_prices \<Longrightarrow> sort prices = sort before_prices"
    by (rule sort_of_permutation)
  show ?thesis
    using expect_names_asc [of self p names p'] expect_names_desc [of self p names p']
      expect_prices_asc [of fl self p prices p'] expect_prices_desc [of fl self p prices p']
      a b
    by (simp split: if_splits)
qed

theorem sort_assertions_compare_with_sorted_copy_witness:
  "get_product_names (page_object lossy_inventory) False
     = (Inr [''Bike Light'', ''Backpack''], False)
   \<and> mset [''Bike Light'', ''Backpack''] = mset [''Backpack'', ''Bike Light'']
   \<and> expect_products_sorted_by_name_desc (page_object lossy_inventory) False = (Inr (), False)
   \<and> expect_products_sorted_by_name_asc (page_object lossy_inventory) False
       = (Inl (AssertionError (''Products not sorted A-Z: ''
             @ list_repr str_repr [''Bike Light'', ''Backpack''])), False)
   \<and> get_product_prices decimal_ops (page_object lossy_inventory) False
     = (Inr [999 / 100, 2999 / 100], False)
   \<and> mset [999 / 100, 2999 / 100 :: rat] = mset [2999 / 100, 999 / 100]
   \<and> expect_products_sorted_by_price_asc decimal_ops (page_object lossy_inventory) False
       = (Inr (), False)"
proof -
  have m: "mset [''Bike Light'', ''Backpack''] = mset [''Backpack'', ''Bike Light'']"
    "mset [999 / 100, 2999 / 100 :: rat] = mset [2999 / 100, 999 / 100]"
    by simp_all
  have s: "sort [999 / 100, 2999 / 100 :: rat] = [999 / 100, 2999 / 100]"
    by simp
  show ?thesis
    using sort_assertions_compare_with_sorted_copy
            [of "page_object lossy_inventory" False "[''Bike Light'', ''Backpack'']" False
                "[''Backpack'', ''Bike Light'']" decimal_ops "[999 / 100, 2999 / 100]"
                "[2999 / 100, 999 / 100]"]
          lossy_names(1) lossy_prices m
    by (simp add: sort_example s)
qed

text \<open>
  The assertion cannot tell whether the displayed sequence is a permutation of the
  sequence before the sort: on an inventory that loses an item when it is sorted, the
  assertion succeeds although the display is not the sorted earlier sequence.
\<close>

theorem sorted_permutation_of_pre_sort_counterexample:
  "get_product_names (page_object lossy_inventory) False
     = (Inr [''Bike Light'', ''Backpack''], False)
   \<and> sort_by_name_asc (page_object lossy_inventory) False
     = (Inr (page_object lossy_inventory), True)
   \<and> get_product_names (page_object lossy_inventory) True = (Inr [''Backpack''], True)
   \<and> expect_products_sorted_by_name_asc (page_object lossy_inventory) True = (Inr (), True)
   \<and> [''Backpack''] \<noteq> sort [''Bike Light'', ''Backpack'']"
  using lossy_names lossy_sort expect_names_asc [OF lossy_names(2)]
  by (simp add: sort_example)

section \<open>Emptying the cart\<close>

lemma counting_cart_count:
  "get_cart_items_count (page_object counting_cart) q = (Inr q, q)"
  by (simp add: get_cart_items_count_def get_element_count_def helpers_get_element_count_def
      page_object_def counting_cart_def)

lemma counting_cart_remove:
  "0 < q \<Longrightarrow>
     remove_item_by_index (page_object counting_cart) 0 q = (Inr (page_object counting_cart), q - 1)"
  by (simp add: remove_item_by_index_def page_object_def counting_cart_def bind_act_def ret_def)

text \<open>
  C10. Let the cart display \<open>cnt\<close> items, let reading the count succeed and leave the
  count as it is, and let every removal at index 0 from a cart that is not empty
  succeed and lower the count by one. Then \<open>remove_all_items\<close> returns, it returns
  the page object itself, and the cart is empty afterwards; the state it ends in is
  reached by as many rounds of reading the count and removing at index 0 as the cart
  had items, followed by one more reading of the count.
\<close>

theorem remove_all_items_empties_cart:
  assumes count: "\<And>q. \<exists>q'. get_cart_items_count self q = (Inr (cnt q), q') \<and> cnt q' = cnt q"
    and remove: "\<And>q. 0 < cnt q \<Longrightarrow>
                   \<exists>q'. remove_item_by_index self 0 q = (Inr self, q') \<and> Suc (cnt q') = cnt q"
  shows "\<exists>p'. remove_all_items self p = Some (Inr self, p') \<and> cnt p' = 0
           \<and> p' = snd (get_cart_items_count self
                  (((\<lambda>q. snd (remove_item_by_index self 0 (snd (get_cart_items_count self q))))
                      ^^ cnt p) p))"
proof (induction "cnt p" arbitrary: p)
  case 0
  from count [of p] obtain q' where q: "get_cart_items_count self p = (Inr (cnt p), q')"
    and c: "cnt q' = cnt p" by blast
  from 0 q have "remove_all_items self p = Some (Inr self, q')"
    by (subst remove_all_items.simps) simp
  with 0 q c show ?case by simp
next
  case (Suc n)
  let ?step = "\<lambda>q. snd (remove_item_by_index self 0 (snd (get_cart_items_count self q)))"
  from count [of p] obtain q1 where q1: "get_cart_items_count self p = (Inr (cnt p), q1)"
    and c1: "cnt q1 = cnt p" by blast
  from Suc(2) c1 have "0 < cnt q1" by simp
  from remove [OF this] obtain q2 where q2: "remove_item_by_index self 0 q1 = (Inr self, q2)"
    and c2: "Suc (cnt q2) = cnt q1" by blast
  from c1 c2 Suc(2) have n: "n = cnt q2" by simp
  from Suc(1) [OF n] obtain p' where p': "remove_all_items self q2 = Some (Inr self, p')"
    and z: "cnt p' = 0"
    and e: "p' = snd (get_cart_items_count self ((?step ^^ cnt q2) q2))" by blast
  have s: "?step p = q2" by (simp add: q1 q2)
  from Suc(2) q1 q2 have "remove_all_items self p = remove_all_items self q2"
    by (subst remove_all_items.simps) (simp add: Suc(2) [symmetric])
  moreover have "(?step ^^ cnt p) p = (?step ^^ cnt q2) q2"
    unfolding Suc(2) [symmetric] n [symmetric] funpow_Suc_right o_apply s ..
  ultimately show ?case using p' z e by simp
qed

theorem remove_all_items_empties_cart_witness:
  "(\<forall>q. get_cart_items_count (page_object counting_cart) q = (Inr q, q))
   \<and> remove_item_by_index (page_object counting_cart) 0 2
       = (Inr (page_object counting_cart), 1)
   \<and> remove_item_by_index (page_object counting_cart) 0 1
       = (Inr (page_object counting_cart), 0)
   \<and> remove_all_items (page_object counting_cart) 2 = Some (Inr (page_object counting_cart), 0)"
proof -
  have c: "\<exists>q'. get_cart_items_count (page_object counting_cart) q = (Inr ((\<lambda>n. n) q), q')
             \<and> (\<lambda>n. n) q' = (\<lambda>n. n) q" for q
    by (simp add: counting_cart_count)
  have r: "\<exists>q'. remove_item_by_index (page_object counting_cart) 0 q
                   = (Inr (page_object counting_cart), q')
             \<and> Suc ((\<lambda>n. n) q') = (\<lambda>n. n) q" if "0 < (\<lambda>n. n) q" for q
    using that by (simp add: counting_cart_remove)
  from remove_all_items_empties_cart [of "page_object counting_cart" "\<lambda>n. n" 2, OF c r]
  have "remove_all_items (page_object counting_cart) 2 = Some (Inr (page_object counting_cart), 0)"
    by auto
  then show ?thesis
    by (simp add: counting_cart_count counting_cart_remove)
qed

end
